theory Spec2Isabelle
  imports Main
begin

section \<open>The module docs/source/src/python/user-guide/io/cloud-storage.py\<close>

text \<open>
  The module is a documentation source: its lines hold the code snippets of the user
  guide's cloud storage page, delimited by \<^verbatim>\<open># --8<-- [start:name]\<close> and
  \<^verbatim>\<open># --8<-- [end:name]\<close> markers. The constant below is the file, line by line,
  character for character (the file has no tab, no backslash, no apostrophe and does not
  end in a newline).
\<close>

definition cloud_storage_py :: "string list" where
  \<open>cloud_storage_py = [
    ''"""'',
    ''# --8<-- [start:read_parquet]'',
    ''import polars as pl'',
    '''',
    ''source = "s3://bucket/*.parquet"'',
    '''',
    ''df = pl.read_parquet(source)'',
    ''# --8<-- [end:read_parquet]'',
    '''',
    ''# --8<-- [start:scan_parquet_query]'',
    ''import polars as pl'',
    '''',
    ''source = "s3://bucket/*.parquet"'',
    '''',
    ''df = pl.scan_parquet(source).filter(pl.col("id") < 100).select("id","value").collect()'',
    ''# --8<-- [end:scan_parquet_query]'',
    '''',
    '''',
    ''# --8<-- [start:scan_parquet_storage_options_aws]'',
    ''import polars as pl'',
    '''',
    ''source = "s3://bucket/*.parquet"'',
    '''',
    ''storage_options = {'',
    ''    "aws_access_key_id": "<secret>",'',
    ''    "aws_secret_access_key": "<secret>",'',
    ''    "aws_region": "us-east-1",'',
    ''}'',
    ''df = pl.scan_parquet(source, storage_options=storage_options).collect()'',
    ''# --8<-- [end:scan_parquet_storage_options_aws]'',
    '''',
    ''# --8<-- [start:credential_provider_class]'',
    ''lf = pl.scan_parquet('',
    ''    "s3://.../...",'',
    ''    credential_provider=pl.CredentialProviderAWS('',
    ''        profile_name="..."'',
    ''        assume_role={'',
    ''            "RoleArn": f"...",'',
    ''            "RoleSessionName": "...",'',
    ''        }'',
    ''    ),'',
    '')'',
    '''',
    ''df = lf.collect()'',
    ''# --8<-- [end:credential_provider_class]'',
    '''',
    ''# --8<-- [start:credential_provider_custom_func]'',
    ''def get_credentials() -> pl.CredentialProviderFunctionReturn:'',
    ''    expiry = None'',
    '''',
    ''    return {'',
    ''        "aws_access_key_id": "...",'',
    ''        "aws_secret_access_key": "...",'',
    ''        "aws_session_token": "...",'',
    ''    }, expiry'',
    '''',
    '''',
    ''lf = pl.scan_parquet('',
    ''    "s3://.../...",'',
    ''    credential_provider=get_credentials,'',
    '')'',
    '''',
    ''df = lf.collect()'',
    ''# --8<-- [end:credential_provider_custom_func]'',
    '''',
    ''# --8<-- [start:credential_provider_custom_func_azure]'',
    ''def credential_provider():'',
    ''    credential = DefaultAzureCredential(exclude_managed_identity_credential=True)'',
    ''    token = credential.get_token("https://storage.azure.com/.default")'',
    '''',
    ''    return {"bearer_token": token.token}, token.expires_on'',
    '''',
    '''',
    ''pl.scan_parquet('',
    ''    "abfss://...@.../...",'',
    ''    credential_provider=credential_provider,'',
    '')'',
    '''',
    ''# Note that for the above case, this shortcut is also available:'',
    '''',
    ''pl.scan_parquet('',
    ''    "abfss://...@.../...",'',
    ''    credential_provider=pl.CredentialProviderAzure('',
    ''        credentials=DefaultAzureCredential(exclude_managed_identity_credential=True)'',
    ''    ),'',
    '')'',
    '''',
    ''# --8<-- [end:credential_provider_custom_func_azure]'',
    '''',
    ''# --8<-- [start:scan_pyarrow_dataset]'',
    ''import polars as pl'',
    ''import pyarrow.dataset as ds'',
    '''',
    ''dset = ds.dataset("s3://my-partitioned-folder/", format="parquet")'',
    ''('',
    ''    pl.scan_pyarrow_dataset(dset)'',
    ''    .filter(pl.col("foo") == "a")'',
    ''    .select(["foo", "bar"])'',
    ''    .collect()'',
    '')'',
    ''# --8<-- [end:scan_pyarrow_dataset]'',
    '''',
    ''# --8<-- [start:write_parquet]'',
    ''import polars as pl'',
    '''',
    ''df = pl.DataFrame('',
    ''    {'',
    ''        "foo": ["a", "b", "c", "d", "d"],'',
    ''        "bar": [1, 2, 3, 4, 5],'',
    ''    }'',
    '')'',
    '''',
    ''destination = "s3://bucket/my_file.parquet"'',
    '''',
    ''df.write_parquet(destination)'',
    '''',
    ''# --8<-- [end:write_parquet]'',
    '''',
    ''# --8<-- [start:write_file_object]'',
    ''import polars as pl'',
    ''import s3fs'',
    ''import gzip'',
    '''',
    ''df = pl.DataFrame('',
    ''    {'',
    ''        "foo": ["a", "b", "c", "d", "d"],'',
    ''        "bar": [1, 2, 3, 4, 5],'',
    ''    }'',
    '')'',
    '''',
    ''destination = "s3://bucket/my_file.csv.gz"'',
    '''',
    ''fs = s3fs.S3FileSystem()'',
    '''',
    ''with fs.open(destination, "wb") as cloud_f:'',
    ''    with gzip.open(cloud_f, "w") as f:'',
    ''        df.write_csv(f)'',
    ''# --8<-- [end:write_file_object]'',
    ''"""''
  ]\<close>

definition newline :: char where
  "newline = CHR 0x0A"

fun join_lines :: "string list \<Rightarrow> string" where
  "join_lines [] = []"
| "join_lines [l] = l"
| "join_lines (l # m # ls) = l @ newline # join_lines (m # ls)"

definition module_text :: string where
  "module_text = join_lines cloud_storage_py"

subsection \<open>Snippet regions\<close>

text \<open>
  The snippet \<open>name\<close> is the lines after the first line \<^verbatim>\<open># --8<-- [start:name]\<close> up
  to the next line \<^verbatim>\<open># --8<-- [end:name]\<close>, the two marker lines left out. A line is
  blank when it holds nothing but spaces.
\<close>

definition start_marker :: "string \<Rightarrow> string" where
  "start_marker name = ''# --8<-- [start:'' @ name @ '']''"

definition end_marker :: "string \<Rightarrow> string" where
  "end_marker name = ''# --8<-- [end:'' @ name @ '']''"

definition marker_name :: "string \<Rightarrow> string \<Rightarrow> string option" where
  "marker_name kind l =
     (let pre = ''# --8<-- ['' @ kind @ '':'' in
      if take (length pre) l = pre \<and> drop (length l - 1) l = '']''
      then Some (take (length l - length pre - 1) (drop (length pre) l))
      else None)"

definition snippet_names :: "string list \<Rightarrow> string list" where
  "snippet_names ls = List.map_filter (marker_name ''start'') ls"

definition snippet :: "string list \<Rightarrow> string \<Rightarrow> string list" where
  "snippet ls name =
     takeWhile (\<lambda>l. l \<noteq> end_marker name) (tl (dropWhile (\<lambda>l. l \<noteq> start_marker name) ls))"

definition blank :: "string \<Rightarrow> bool" where
  "blank l = list_all (\<lambda>c. c = CHR '' '') l"

definition nonblank_lines :: "string list \<Rightarrow> string list" where
  "nonblank_lines ls = filter (\<lambda>l. \<not> blank l) ls"

subsection \<open>Python tokens\<close>

text \<open>
  The lexical structure of Python that the file uses: names, numbers (a number runs over
  digits and letters, as in \<^verbatim>\<open>0x1F\<close> or \<^verbatim>\<open>10j\<close>), string literals
  in double quotes (one line) and in triple double quotes (any number of lines), with an
  optional prefix such as \<^verbatim>\<open>f\<close>, comments from \<^verbatim>\<open>#\<close> to the end of the line,
  operators and brackets, and line ends. Accumulators hold the characters read so far in
  reverse. Escape sequences and strings in apostrophes are left out: the file has neither
  a backslash nor an apostrophe (lemma \<open>no_backslash_no_apostrophe\<close>).
\<close>

datatype py_token = Name string | Str string | Num string | Op string | Newline | Bad

datatype mode =
    Code | InName string | InNum string | InOp char | Quote1 | Quote2
  | InStr string | InStr3 string | InComment

definition quote :: char where
  "quote = CHR 0x22"

definition is_letter :: "char \<Rightarrow> bool" where
  "is_letter c =
     (let n = (of_char c :: nat) in (65 \<le> n \<and> n \<le> 90) \<or> (97 \<le> n \<and> n \<le> 122) \<or> n = 95)"

definition is_digit :: "char \<Rightarrow> bool" where
  "is_digit c = (let n = (of_char c :: nat) in 48 \<le> n \<and> n \<le> 57)"

definition string_prefixes :: "string list" where
  "string_prefixes =
     [''f'', ''r'', ''b'', ''u'', ''F'', ''R'', ''B'', ''U'', ''fr'', ''rf'', ''br'', ''rb'']"

definition start :: "char \<Rightarrow> py_token list \<times> mode" where
  "start c =
     (if is_letter c then ([], InName [c])
      else if is_digit c then ([], InNum [c])
      else if c = quote then ([], Quote1)
      else if c = CHR ''#'' then ([], InComment)
      else if c = newline then ([Newline], Code)
      else if c = CHR '' '' then ([], Code)
      else if c \<in> set ''=-<>!'' then ([], InOp c)
      else ([Op [c]], Code))"

definition emit :: "py_token \<Rightarrow> py_token list \<times> mode \<Rightarrow> py_token list \<times> mode" where
  "emit t r = (t # fst r, snd r)"

fun step :: "mode \<Rightarrow> char \<Rightarrow> py_token list \<times> mode" where
  "step Code c = start c"
| "step (InName acc) c =
     (if is_letter c \<or> is_digit c then ([], InName (c # acc))
      else if c = quote \<and> rev acc \<in> set string_prefixes then ([], Quote1)
      else emit (Name (rev acc)) (start c))"
| "step (InNum acc) c =
     (if is_digit c \<or> is_letter c then ([], InNum (c # acc))
      else emit (Num (rev acc)) (start c))"
| "step (InOp d) c =
     (if c = CHR ''='' \<or> (d = CHR ''-'' \<and> c = CHR ''>'') then ([Op [d, c]], Code)
      else emit (Op [d]) (start c))"
| "step Quote1 c =
     (if c = quote then ([], Quote2)
      else if c = newline then ([Bad, Newline], Code)
      else ([], InStr [c]))"
| "step Quote2 c =
     (if c = quote then ([], InStr3 []) else emit (Str []) (start c))"
| "step (InStr acc) c =
     (if c = quote then ([Str (rev acc)], Code)
      else if c = newline then ([Bad, Newline], Code)
      else ([], InStr (c # acc)))"
| "step (InStr3 acc) c =
     (if c = quote \<and> take 2 acc = [quote, quote] then ([Str (rev (drop 2 acc))], Code)
      else ([], InStr3 (c # acc)))"
| "step InComment c =
     (if c = newline then ([Newline], Code) else ([], InComment))"

fun finish :: "mode \<Rightarrow> py_token list" where
  "finish Code = []"
| "finish (InName acc) = [Name (rev acc)]"
| "finish (InNum acc) = [Num (rev acc)]"
| "finish (InOp d) = [Op [d]]"
| "finish Quote1 = [Bad]"
| "finish Quote2 = [Str []]"
| "finish (InStr acc) = [Bad]"
| "finish (InStr3 acc) = [Bad]"
| "finish InComment = []"

fun lex :: "mode \<Rightarrow> string \<Rightarrow> py_token list" where
  "lex m [] = finish m"
| "lex m (c # cs) = fst (step m c) @ lex (snd (step m c)) cs"

definition tokens :: "string \<Rightarrow> py_token list" where
  "tokens s = lex Code s"

text \<open>
  Inside brackets a line end does not end the statement (implicit line joining):
  \<open>logical\<close> drops the \<open>Newline\<close> tokens that stand inside brackets.
\<close>

definition open_brackets :: "string list" where
  "open_brackets = [''('', ''['', ''{'']"

definition close_brackets :: "string list" where
  "close_brackets = ['')'', '']'', ''}'']"

fun depth_after :: "nat \<Rightarrow> py_token \<Rightarrow> nat" where
  "depth_after d (Op x) =
     (if x \<in> set open_brackets then Suc d else if x \<in> set close_brackets then d - 1 else d)"
| "depth_after d t = d"

fun logical :: "nat \<Rightarrow> py_token list \<Rightarrow> py_token list" where
  "logical d [] = []"
| "logical d (t # ts) =
     (if t = Newline \<and> 0 < d then logical d ts else t # logical (depth_after d t) ts)"

definition snippet_tokens :: "string \<Rightarrow> py_token list" where
  "snippet_tokens name = logical 0 (tokens (join_lines (snippet cloud_storage_py name)))"

subsection \<open>Names, calls and arguments of a snippet\<close>

definition python_keywords :: "string list" where
  "python_keywords =
     [''False'', ''None'', ''True'', ''and'', ''as'', ''assert'', ''async'', ''await'',
      ''break'', ''class'', ''continue'', ''def'', ''del'', ''elif'', ''else'', ''except'',
      ''finally'', ''for'', ''from'', ''global'', ''if'', ''import'', ''in'', ''is'',
      ''lambda'', ''nonlocal'', ''not'', ''or'', ''pass'', ''raise'', ''return'', ''try'',
      ''while'', ''with'', ''yield'']"

definition next_token :: "py_token list \<Rightarrow> py_token" where
  "next_token ts = (case ts of [] \<Rightarrow> Newline | t # r \<Rightarrow> t)"

definition is_name :: "py_token \<Rightarrow> bool" where
  "is_name t = (case t of Name n \<Rightarrow> True | _ \<Rightarrow> False)"

definition used_keywords :: "py_token list \<Rightarrow> string list" where
  "used_keywords ts =
     remdups (List.map_filter
       (\<lambda>t. case t of Name n \<Rightarrow> (if n \<in> set python_keywords then Some n else None) | _ \<Rightarrow> None) ts)"

text \<open>
  How a name occurs. The binding forms are the ones the snippets use: \<^verbatim>\<open>import m\<close>,
  \<^verbatim>\<open>import m.n as x\<close>, \<^verbatim>\<open>def f\<close>, \<^verbatim>\<open>with e as x\<close> and an assignment \<^verbatim>\<open>x = e\<close>
  outside brackets; \<^verbatim>\<open>x=e\<close> inside brackets is a keyword argument, and a name after a
  dot is an attribute.
\<close>

datatype occurrence = Bind string | Ref string | Attr string | Kwarg string

fun import_alias :: "py_token list \<Rightarrow> bool" where
  "import_alias [] = False"
| "import_alias (t # ts) =
     (if t = Name ''as'' then True
      else if t = Op ''.'' \<or> is_name t then import_alias ts
      else False)"

definition classify :: "nat \<Rightarrow> py_token \<Rightarrow> string \<Rightarrow> py_token list \<Rightarrow> occurrence list" where
  "classify d p n ts =
     (if n \<in> set python_keywords then []
      else if p = Name ''def'' \<or> p = Name ''as'' then [Bind n]
      else if p = Name ''import'' then (if import_alias ts then [] else [Bind n])
      else if p = Op ''.'' then [Attr n]
      else if next_token ts = Op ''='' then (if d = 0 then [Bind n] else [Kwarg n])
      else [Ref n])"

fun occurrences :: "nat \<Rightarrow> py_token \<Rightarrow> py_token list \<Rightarrow> occurrence list" where
  "occurrences d p [] = []"
| "occurrences d p (t # ts) =
     (case t of Name n \<Rightarrow> classify d p n ts | _ \<Rightarrow> []) @ occurrences (depth_after d t) t ts"

definition bound_names :: "py_token list \<Rightarrow> string list" where
  "bound_names ts =
     List.map_filter (\<lambda>x. case x of Bind n \<Rightarrow> Some n | _ \<Rightarrow> None) (occurrences 0 Newline ts)"

definition referenced_names :: "py_token list \<Rightarrow> string list" where
  "referenced_names ts =
     List.map_filter (\<lambda>x. case x of Ref n \<Rightarrow> Some n | _ \<Rightarrow> None) (occurrences 0 Newline ts)"

definition free_names :: "py_token list \<Rightarrow> string list" where
  "free_names ts =
     remdups (filter (\<lambda>n. n \<notin> set (bound_names ts)) (referenced_names ts))"

text \<open>A call: a name, other than the one a \<^verbatim>\<open>def\<close> introduces, right before \<^verbatim>\<open>(\<close>.\<close>

fun calls :: "py_token \<Rightarrow> py_token list \<Rightarrow> string list" where
  "calls p [] = []"
| "calls p (t # ts) =
     (case t of
        Name n \<Rightarrow>
          (if p \<noteq> Name ''def'' \<and> n \<notin> set python_keywords \<and> next_token ts = Op ''(''
           then [n] else [])
      | _ \<Rightarrow> []) @ calls t ts"

definition snippet_calls :: "string \<Rightarrow> string list" where
  "snippet_calls name = calls Newline (snippet_tokens name)"

definition io_entry_points :: "string list" where
  "io_entry_points =
     [''read_parquet'', ''scan_parquet'', ''scan_pyarrow_dataset'', ''write_parquet'',
      ''write_csv'']"

definition lazy_scans :: "string list" where
  "lazy_scans = [''scan_parquet'', ''scan_pyarrow_dataset'']"

definition entry_point_calls :: "string \<Rightarrow> string list" where
  "entry_point_calls name = filter (\<lambda>c. c \<in> set io_entry_points) (snippet_calls name)"


definition uses_lazy_scan :: "string \<Rightarrow> bool" where
  "uses_lazy_scan name = list_ex (\<lambda>c. c \<in> set lazy_scans) (snippet_calls name)"

text \<open>Function definitions with their parameter tokens, and return statements.\<close>

fun def_headers :: "py_token list \<Rightarrow> (string \<times> py_token list) list" where
  "def_headers [] = []"
| "def_headers (t # ts) =
     (if t = Name ''def''
      then (case ts of
              Name n # Op p # r \<Rightarrow> [(n, takeWhile (\<lambda>x. x \<noteq> Op '')'') r)]
            | _ \<Rightarrow> [])
      else []) @ def_headers ts"

fun return_statements :: "py_token list \<Rightarrow> py_token list list" where
  "return_statements [] = []"
| "return_statements (t # ts) =
     (if t = Name ''return'' then [takeWhile (\<lambda>x. x \<noteq> Newline) ts] else [])
     @ return_statements ts"

text \<open>
  How credentials are handed to a call: the value of a \<^verbatim>\<open>storage_options=\<close> or
  \<^verbatim>\<open>credential_provider=\<close> keyword argument is a dictionary (written in place, or a
  variable assigned one), a function the snippet defines, or an object built by calling
  a class of a library.
\<close>

datatype credential_supply = PlainMapping | Callback string | Constructed string | Unknown

fun has_seq :: "py_token list \<Rightarrow> py_token list \<Rightarrow> bool" where
  "has_seq pat [] = (pat = [])"
| "has_seq pat (t # ts) = (take (length pat) (t # ts) = pat \<or> has_seq pat ts)"

definition resolve :: "py_token list \<Rightarrow> string \<Rightarrow> credential_supply" where
  "resolve all n =
     (if has_seq [Name ''def'', Name n] all then Callback n
      else if has_seq [Newline, Name n, Op ''='', Op ''{''] (Newline # all) then PlainMapping
      else Unknown)"

definition value_form :: "py_token list \<Rightarrow> py_token list \<Rightarrow> credential_supply" where
  "value_form all v =
     (case v of
        Op x # r \<Rightarrow> (if x = ''{'' then PlainMapping else Unknown)
      | Name n # Op x # r \<Rightarrow>
          (if x = '','' \<or> x = '')'' then resolve all n
           else if x = ''.''
           then (case r of
                   Name c # Op y # r' \<Rightarrow> (if y = ''('' then Constructed c else Unknown)
                 | _ \<Rightarrow> Unknown)
           else Unknown)
      | _ \<Rightarrow> Unknown)"

definition credential_keywords :: "string list" where
  "credential_keywords = [''storage_options'', ''credential_provider'']"

fun supplies :: "py_token list \<Rightarrow> nat \<Rightarrow> py_token list \<Rightarrow> credential_supply list" where
  "supplies all d [] = []"
| "supplies all d (t # ts) =
     (case t of
        Name n \<Rightarrow>
          (if n \<in> set credential_keywords \<and> 0 < d \<and> next_token ts = Op ''=''
           then [value_form all (tl ts)] else [])
      | _ \<Rightarrow> []) @ supplies all (depth_after d t) ts"

definition snippet_supplies :: "string \<Rightarrow> credential_supply list" where
  "snippet_supplies name = supplies (snippet_tokens name) 0 (snippet_tokens name)"

text \<open>
  A necessary condition of Python's grammar: a literal or a closing bracket is never
  directly followed by a name that is not a keyword; between two arguments of a call
  stands a comma. The check returns the first such pair as a syntax error.
\<close>

datatype syntax_error = MissingSeparator py_token py_token

definition ends_operand :: "py_token \<Rightarrow> bool" where
  "ends_operand a =
     (case a of Str s \<Rightarrow> True | Num s \<Rightarrow> True | Op x \<Rightarrow> x \<in> set close_brackets | _ \<Rightarrow> False)"

definition starts_name :: "py_token \<Rightarrow> bool" where
  "starts_name b = (case b of Name n \<Rightarrow> n \<notin> set python_keywords | _ \<Rightarrow> False)"

fun check_separators :: "py_token list \<Rightarrow> syntax_error + unit" where
  "check_separators [] = Inr ()"
| "check_separators (a # ts) =
     (if ends_operand a \<and> starts_name (next_token ts) then Inl (MissingSeparator a (next_token ts))
      else check_separators ts)"

fun after_display :: "nat \<Rightarrow> py_token list \<Rightarrow> py_token list" where
  "after_display d [] = []"
| "after_display d (t # ts) =
     (if depth_after d t = 0 then ts else after_display (depth_after d t) ts)"

definition returns_pair :: "py_token list \<Rightarrow> bool" where
  "returns_pair r =
     (next_token r = Op ''{'' \<and>
      (case after_display 0 r of Op x # e # r' \<Rightarrow> x = '','' | _ \<Rightarrow> False))"

definition is_mapping_or_callback :: "credential_supply \<Rightarrow> bool" where
  "is_mapping_or_callback s =
     (case s of PlainMapping \<Rightarrow> True | Callback n \<Rightarrow> True | _ \<Rightarrow> False)"

definition markers :: "string list \<Rightarrow> (bool \<times> string) list" where
  "markers ls =
     List.map_filter
       (\<lambda>l. case marker_name ''start'' l of
              Some n \<Rightarrow> Some (True, n)
            | None \<Rightarrow> (case marker_name ''end'' l of Some n \<Rightarrow> Some (False, n) | None \<Rightarrow> None))
       ls"

subsection \<open>The module as Python reads it\<close>

text \<open>
  \<open>docstring\<close> is the text between the first and the last line of the file.
  \<open>quote_run k s\<close> follows the number of double quotes that end the text read so far
  (\<open>k\<close> of them before \<open>s\<close>) and is \<open>None\<close> when \<open>s\<close> completes three in a row, which
  would close a triple-quoted string.
\<close>

definition docstring :: string where
  "docstring = newline # join_lines (butlast (tl cloud_storage_py)) @ [newline]"

fun quote_run :: "nat \<Rightarrow> string \<Rightarrow> nat option" where
  "quote_run k [] = Some k"
| "quote_run k (c # cs) =
     (if c = quote then (if k < 2 then quote_run (Suc k) cs else None) else quote_run 0 cs)"

definition trailing_quotes :: "string \<Rightarrow> nat" where
  "trailing_quotes acc = length (takeWhile (\<lambda>c. c = quote) acc)"

definition line_ok :: "string \<Rightarrow> bool" where
  "line_ok l = (quote_run 0 l \<noteq> None)"

text \<open>
  Executing a module whose body is one string literal binds \<^verbatim>\<open>__doc__\<close> to it and
  does nothing else; a module of any other shape is outside this model (\<open>None\<close>).
\<close>

type_synonym namespace = "string \<rightharpoonup> string"

fun exec_module :: "py_token list \<Rightarrow> namespace \<Rightarrow> namespace option" where
  "exec_module [Str s] ns = Some (ns(''__doc__'' \<mapsto> s))"
| "exec_module ts ns = None"

subsection \<open>The credential provider callbacks\<close>

text \<open>
  \<^verbatim>\<open>get_credentials\<close> of the snippet \<^verbatim>\<open>credential_provider_custom_func\<close> and
  \<^verbatim>\<open>credential_provider\<close> of \<^verbatim>\<open>credential_provider_custom_func_azure\<close>. A dictionary
  literal is an association list in the order written. The Azure SDK is a parameter:
  \<^verbatim>\<open>DefaultAzureCredential(exclude_managed_identity_credential=...)\<close> gives a credential,
  modelled by its \<^verbatim>\<open>get_token\<close> method from a scope to an access token.
\<close>

type_synonym credentials = "(string \<times> string) list"

type_synonym CredentialProviderFunctionReturn = "credentials \<times> int option"

record AccessToken =
  token :: string
  expires_on :: int

definition get_credentials :: "unit \<Rightarrow> CredentialProviderFunctionReturn" where
  "get_credentials u =
     (let expiry = None in
      ([(''aws_access_key_id'', ''...''),
        (''aws_secret_access_key'', ''...''),
        (''aws_session_token'', ''...'')], expiry))"

definition credential_provider ::
  "(bool \<Rightarrow> string \<Rightarrow> AccessToken) \<Rightarrow> unit \<Rightarrow> CredentialProviderFunctionReturn" where
  "credential_provider DefaultAzureCredential u =
     (let credential = DefaultAzureCredential True;
          tok = credential ''https://storage.azure.com/.default''
      in ([(''bearer_token'', token tok)], Some (expires_on tok)))"

subsection \<open>The caller of a credential provider\<close>

text \<open>
  Modelled from the spec: the library code that calls a credential provider during a scan
  is not part of this file. The spec says the provider is invoked initially and then again
  on refresh, that the caller re-invokes it once the expiry passes, and that no expiry
  means the credential does not expire. A provider without arguments is modelled by the
  results of its successive invocations; the state counts the invocations and holds the
  result in use.
\<close>

type_synonym provider = "nat \<Rightarrow> CredentialProviderFunctionReturn"

record refresh_state =
  invocations :: nat
  current :: "CredentialProviderFunctionReturn option"

definition initial :: refresh_state where
  "initial = \<lparr>invocations = 0, current = None\<rparr>"

definition invoke :: "provider \<Rightarrow> refresh_state \<Rightarrow> refresh_state" where
  "invoke p s = \<lparr>invocations = Suc (invocations s), current = Some (p (invocations s))\<rparr>"

definition expiry_passed :: "int \<Rightarrow> int option \<Rightarrow> bool" where
  "expiry_passed now expiry = (case expiry of None \<Rightarrow> False | Some e \<Rightarrow> e < now)"

definition credentials_at :: "provider \<Rightarrow> int \<Rightarrow> refresh_state \<Rightarrow> refresh_state" where
  "credentials_at p now s =
     (case current s of
        None \<Rightarrow> invoke p s
      | Some r \<Rightarrow> (if expiry_passed now (snd r) then invoke p s else s))"

fun requests :: "provider \<Rightarrow> int list \<Rightarrow> refresh_state \<Rightarrow> refresh_state" where
  "requests p [] s = s"
| "requests p (t # ts) s = requests p ts (credentials_at p t s)"

subsection \<open>The tables of the two write snippets\<close>

datatype cell = S string | I int

type_synonym frame = "(string \<times> cell list) list"

definition write_parquet_df :: frame where
  "write_parquet_df =
     [(''foo'', [S ''a'', S ''b'', S ''c'', S ''d'', S ''d'']),
      (''bar'', [I 1, I 2, I 3, I 4, I 5])]"

definition write_file_object_df :: frame where
  "write_file_object_df =
     [(''foo'', [S ''a'', S ''b'', S ''c'', S ''d'', S ''d'']),
      (''bar'', [I 1, I 2, I 3, I 4, I 5])]"

subsection \<open>The chain of calls on a lazy scan\<close>








subsection \<open>The lazy query API\<close>

text \<open>
  Modelled from the spec: the library functions \<^verbatim>\<open>read_parquet\<close>, \<^verbatim>\<open>scan_parquet\<close>,
  \<^verbatim>\<open>filter\<close>, \<^verbatim>\<open>select\<close> and \<^verbatim>\<open>collect\<close> that the snippets call are not part of this
  file. The spec says that an eager read brings the remote files into an in-memory table,
  and that a lazy scan is a query construction step that defers execution (filtering and
  column selection) until an explicit materialization call. A table is a list of rows, a
  row gives its named columns; the world holds what is stored at each location and the
  locations read so far. The construction steps return a query and leave the world as it
  is; \<open>collect\<close> reads the scanned location and executes the query.
\<close>

type_synonym row = "(string \<times> cell) list"

type_synonym table = "row list"

datatype predicate = ColLess string int | ColEquals string cell

datatype lazy_frame = Scan string | Filter predicate lazy_frame | Select "string list" lazy_frame

record world =
  storage :: "string \<Rightarrow> table"
  reads :: "string list"

definition read_parquet :: "string \<Rightarrow> world \<Rightarrow> table \<times> world" where
  "read_parquet source w = (storage w source, w\<lparr>reads := reads w @ [source]\<rparr>)"

definition scan_parquet :: "string \<Rightarrow> world \<Rightarrow> lazy_frame \<times> world" where
  "scan_parquet source w = (Scan source, w)"

definition filter_lf :: "predicate \<Rightarrow> lazy_frame \<Rightarrow> world \<Rightarrow> lazy_frame \<times> world" where
  "filter_lf p lf w = (Filter p lf, w)"

definition select_lf :: "string list \<Rightarrow> lazy_frame \<Rightarrow> world \<Rightarrow> lazy_frame \<times> world" where
  "select_lf cols lf w = (Select cols lf, w)"

fun holds :: "predicate \<Rightarrow> row \<Rightarrow> bool" where
  "holds (ColLess c n) r = (case map_of r c of Some (I v) \<Rightarrow> v < n | _ \<Rightarrow> False)"
| "holds (ColEquals c v) r = (map_of r c = Some v)"

definition project :: "string list \<Rightarrow> row \<Rightarrow> row" where
  "project cols r = List.map_filter (\<lambda>c. map_option (Pair c) (map_of r c)) cols"

fun scanned :: "lazy_frame \<Rightarrow> string" where
  "scanned (Scan source) = source"
| "scanned (Filter p lf) = scanned lf"
| "scanned (Select cols lf) = scanned lf"

fun execute :: "(string \<Rightarrow> table) \<Rightarrow> lazy_frame \<Rightarrow> table" where
  "execute st (Scan source) = st source"
| "execute st (Filter p lf) = filter (holds p) (execute st lf)"
| "execute st (Select cols lf) = map (project cols) (execute st lf)"

definition collect :: "lazy_frame \<Rightarrow> world \<Rightarrow> table \<times> world" where
  "collect lf w = (execute (storage w) lf, w\<lparr>reads := reads w @ [scanned lf]\<rparr>)"

text \<open>
  The snippet \<^verbatim>\<open>scan_parquet_query\<close> (lines 11 to 15) and the two scans of the snippet
  \<^verbatim>\<open>credential_provider_custom_func_azure\<close> (lines 74 to 77 and 81 to 86) over this API.
  The credential provider arguments of the two scans do not enter the query.
\<close>

definition scan_parquet_query :: "world \<Rightarrow> table \<times> world" where
  "scan_parquet_query w0 =
     (let source = ''s3://bucket/*.parquet'';
          (lf1, w1) = scan_parquet source w0;
          (lf2, w2) = filter_lf (ColLess ''id'' 100) lf1 w1;
          (lf3, w3) = select_lf [''id'', ''value''] lf2 w2
      in collect lf3 w3)"



section \<open>Properties\<close>

subsection \<open>The snippets and their tokens\<close>

lemma no_backslash_no_apostrophe:
  "list_all (\<lambda>l. CHR 0x5C \<notin> set l \<and> CHR 0x27 \<notin> set l \<and> CHR 0x09 \<notin> set l) cloud_storage_py"
  by code_simp

lemma snippet_names_eq:
  "snippet_names cloud_storage_py =
     [''read_parquet'', ''scan_parquet_query'', ''scan_parquet_storage_options_aws'',
      ''credential_provider_class'', ''credential_provider_custom_func'',
      ''credential_provider_custom_func_azure'', ''scan_pyarrow_dataset'',
      ''write_parquet'', ''write_file_object'']"
  by code_simp

lemma tokens_read_parquet:
  "snippet_tokens ''read_parquet'' =
   [Name ''import'', Name ''polars'', Name ''as'', Name ''pl'', Newline, Newline,
    Name ''source'', Op ''='', Str ''s3://bucket/*.parquet'', Newline, Newline,
    Name ''df'', Op ''='', Name ''pl'', Op ''.'', Name ''read_parquet'', Op ''('',
    Name ''source'', Op '')'']"
  by code_simp

lemma tokens_scan_parquet_query:
  "snippet_tokens ''scan_parquet_query'' =
   [Name ''import'', Name ''polars'', Name ''as'', Name ''pl'', Newline, Newline,
    Name ''source'', Op ''='', Str ''s3://bucket/*.parquet'', Newline, Newline,
    Name ''df'', Op ''='', Name ''pl'', Op ''.'', Name ''scan_parquet'', Op ''('',
    Name ''source'', Op '')'', Op ''.'', Name ''filter'', Op ''('', Name ''pl'', Op ''.'',
    Name ''col'', Op ''('', Str ''id'', Op '')'', Op ''<'', Num ''100'', Op '')'',
    Op ''.'', Name ''select'', Op ''('', Str ''id'', Op '','', Str ''value'', Op '')'',
    Op ''.'', Name ''collect'', Op ''('', Op '')'']"
  by code_simp

lemma tokens_scan_parquet_storage_options_aws:
  "snippet_tokens ''scan_parquet_storage_options_aws'' =
   [Name ''import'', Name ''polars'', Name ''as'', Name ''pl'', Newline, Newline,
    Name ''source'', Op ''='', Str ''s3://bucket/*.parquet'', Newline, Newline,
    Name ''storage_options'', Op ''='', Op ''{'', Str ''aws_access_key_id'', Op '':'',
    Str ''<secret>'', Op '','', Str ''aws_secret_access_key'', Op '':'', Str ''<secret>'',
    Op '','', Str ''aws_region'', Op '':'', Str ''us-east-1'', Op '','', Op ''}'', Newline,
    Name ''df'', Op ''='', Name ''pl'', Op ''.'', Name ''scan_parquet'', Op ''('',
    Name ''source'', Op '','', Name ''storage_options'', Op ''='',
    Name ''storage_options'', Op '')'', Op ''.'', Name ''collect'', Op ''('', Op '')'']"
  by code_simp

lemma tokens_credential_provider_class:
  "snippet_tokens ''credential_provider_class'' =
   [Name ''lf'', Op ''='', Name ''pl'', Op ''.'', Name ''scan_parquet'', Op ''('',
    Str ''s3://.../...'', Op '','', Name ''credential_provider'', Op ''='', Name ''pl'',
    Op ''.'', Name ''CredentialProviderAWS'', Op ''('', Name ''profile_name'', Op ''='',
    Str ''...'', Name ''assume_role'', Op ''='', Op ''{'', Str ''RoleArn'', Op '':'',
    Str ''...'', Op '','', Str ''RoleSessionName'', Op '':'', Str ''...'', Op '','',
    Op ''}'', Op '')'', Op '','', Op '')'', Newline, Newline, Name ''df'', Op ''='',
    Name ''lf'', Op ''.'', Name ''collect'', Op ''('', Op '')'']"
  by code_simp

lemma tokens_credential_provider_custom_func:
  "snippet_tokens ''credential_provider_custom_func'' =
   [Name ''def'', Name ''get_credentials'', Op ''('', Op '')'', Op ''->'', Name ''pl'',
    Op ''.'', Name ''CredentialProviderFunctionReturn'', Op '':'', Newline,
    Name ''expiry'', Op ''='', Name ''None'', Newline, Newline, Name ''return'', Op ''{'',
    Str ''aws_access_key_id'', Op '':'', Str ''...'', Op '','',
    Str ''aws_secret_access_key'', Op '':'', Str ''...'', Op '','',
    Str ''aws_session_token'', Op '':'', Str ''...'', Op '','', Op ''}'', Op '','',
    Name ''expiry'', Newline, Newline, Newline, Name ''lf'', Op ''='', Name ''pl'',
    Op ''.'', Name ''scan_parquet'', Op ''('', Str ''s3://.../...'', Op '','',
    Name ''credential_provider'', Op ''='', Name ''get_credentials'', Op '','', Op '')'',
    Newline, Newline, Name ''df'', Op ''='', Name ''lf'', Op ''.'', Name ''collect'',
    Op ''('', Op '')'']"
  by code_simp

lemma tokens_credential_provider_custom_func_azure:
  "snippet_tokens ''credential_provider_custom_func_azure'' =
   [Name ''def'', Name ''credential_provider'', Op ''('', Op '')'', Op '':'', Newline,
    Name ''credential'', Op ''='', Name ''DefaultAzureCredential'', Op ''('',
    Name ''exclude_managed_identity_credential'', Op ''='', Name ''True'', Op '')'',
    Newline, Name ''token'', Op ''='', Name ''credential'', Op ''.'', Name ''get_token'',
    Op ''('', Str ''https://storage.azure.com/.default'', Op '')'', Newline, Newline,
    Name ''return'', Op ''{'', Str ''bearer_token'', Op '':'', Name ''token'', Op ''.'',
    Name ''token'', Op ''}'', Op '','', Name ''token'', Op ''.'', Name ''expires_on'',
    Newline, Newline, Newline, Name ''pl'', Op ''.'', Name ''scan_parquet'', Op ''('',
    Str ''abfss://...@.../...'', Op '','', Name ''credential_provider'', Op ''='',
    Name ''credential_provider'', Op '','', Op '')'', Newline, Newline, Newline, Newline,
    Name ''pl'', Op ''.'', Name ''scan_parquet'', Op ''('', Str ''abfss://...@.../...'',
    Op '','', Name ''credential_provider'', Op ''='', Name ''pl'', Op ''.'',
    Name ''CredentialProviderAzure'', Op ''('', Name ''credentials'', Op ''='',
    Name ''DefaultAzureCredential'', Op ''('',
    Name ''exclude_managed_identity_credential'', Op ''='', Name ''True'', Op '')'',
    Op '')'', Op '','', Op '')'', Newline]"
  by code_simp

lemma tokens_scan_pyarrow_dataset:
  "snippet_tokens ''scan_pyarrow_dataset'' =
   [Name ''import'', Name ''polars'', Name ''as'', Name ''pl'', Newline, Name ''import'',
    Name ''pyarrow'', Op ''.'', Name ''dataset'', Name ''as'', Name ''ds'', Newline,
    Newline, Name ''dset'', Op ''='', Name ''ds'', Op ''.'', Name ''dataset'', Op ''('',
    Str ''s3://my-partitioned-folder/'', Op '','', Name ''format'', Op ''='',
    Str ''parquet'', Op '')'', Newline, Op ''('', Name ''pl'', Op ''.'',
    Name ''scan_pyarrow_dataset'', Op ''('', Name ''dset'', Op '')'', Op ''.'',
    Name ''filter'', Op ''('', Name ''pl'', Op ''.'', Name ''col'', Op ''('', Str ''foo'',
    Op '')'', Op ''=='', Str ''a'', Op '')'', Op ''.'', Name ''select'', Op ''('',
    Op ''['', Str ''foo'', Op '','', Str ''bar'', Op '']'', Op '')'', Op ''.'',
    Name ''collect'', Op ''('', Op '')'', Op '')'']"
  by code_simp

lemma tokens_write_parquet:
  "snippet_tokens ''write_parquet'' =
   [Name ''import'', Name ''polars'', Name ''as'', Name ''pl'', Newline, Newline,
    Name ''df'', Op ''='', Name ''pl'', Op ''.'', Name ''DataFrame'', Op ''('', Op ''{'',
    Str ''foo'', Op '':'', Op ''['', Str ''a'', Op '','', Str ''b'', Op '','', Str ''c'',
    Op '','', Str ''d'', Op '','', Str ''d'', Op '']'', Op '','', Str ''bar'', Op '':'',
    Op ''['', Num ''1'', Op '','', Num ''2'', Op '','', Num ''3'', Op '','', Num ''4'',
    Op '','', Num ''5'', Op '']'', Op '','', Op ''}'', Op '')'', Newline, Newline,
    Name ''destination'', Op ''='', Str ''s3://bucket/my_file.parquet'', Newline, Newline,
    Name ''df'', Op ''.'', Name ''write_parquet'', Op ''('', Name ''destination'',
    Op '')'', Newline]"
  by code_simp

lemma tokens_write_file_object:
  "snippet_tokens ''write_file_object'' =
   [Name ''import'', Name ''polars'', Name ''as'', Name ''pl'', Newline, Name ''import'',
    Name ''s3fs'', Newline, Name ''import'', Name ''gzip'', Newline, Newline, Name ''df'',
    Op ''='', Name ''pl'', Op ''.'', Name ''DataFrame'', Op ''('', Op ''{'', Str ''foo'',
    Op '':'', Op ''['', Str ''a'', Op '','', Str ''b'', Op '','', Str ''c'', Op '','',
    Str ''d'', Op '','', Str ''d'', Op '']'', Op '','', Str ''bar'', Op '':'', Op ''['',
    Num ''1'', Op '','', Num ''2'', Op '','', Num ''3'', Op '','', Num ''4'', Op '','',
    Num ''5'', Op '']'', Op '','', Op ''}'', Op '')'', Newline, Newline,
    Name ''destination'', Op ''='', Str ''s3://bucket/my_file.csv.gz'', Newline, Newline,
    Name ''fs'', Op ''='', Name ''s3fs'', Op ''.'', Name ''S3FileSystem'', Op ''('',
    Op '')'', Newline, Newline, Name ''with'', Name ''fs'', Op ''.'', Name ''open'',
    Op ''('', Name ''destination'', Op '','', Str ''wb'', Op '')'', Name ''as'',
    Name ''cloud_f'', Op '':'', Newline, Name ''with'', Name ''gzip'', Op ''.'',
    Name ''open'', Op ''('', Name ''cloud_f'', Op '','', Str ''w'', Op '')'', Name ''as'',
    Name ''f'', Op '':'', Newline, Name ''df'', Op ''.'', Name ''write_csv'', Op ''('',
    Name ''f'', Op '')'']"
  by code_simp

lemmas snippet_tokens_eqs = tokens_read_parquet tokens_scan_parquet_query tokens_scan_parquet_storage_options_aws tokens_credential_provider_class tokens_credential_provider_custom_func tokens_credential_provider_custom_func_azure tokens_scan_pyarrow_dataset tokens_write_parquet tokens_write_file_object

subsection \<open>The module is one string literal\<close>

lemma join_lines_Cons:
  "join_lines (l # ls) = (if ls = [] then l else l @ newline # join_lines ls)"
  by (cases ls) simp_all

lemma join_lines_snoc:
  "ls \<noteq> [] \<Longrightarrow> join_lines (ls @ [b]) = join_lines ls @ newline # b"
  by (induction ls rule: join_lines.induct) simp_all

lemma file_shape:
  "cloud_storage_py =
     [quote, quote, quote] # butlast (tl cloud_storage_py) @ [[quote, quote, quote]]"
  by code_simp

lemma middle_nonempty: "butlast (tl cloud_storage_py) \<noteq> []"
  by code_simp

lemma middle_lines_ok: "list_all line_ok (butlast (tl cloud_storage_py))"
  by code_simp

lemma module_text_shape:
  "module_text = [quote, quote, quote] @ docstring @ [quote, quote, quote]"
proof -
  have "module_text =
      join_lines ([quote, quote, quote] # butlast (tl cloud_storage_py) @ [[quote, quote, quote]])"
    unfolding module_text_def using file_shape by simp
  also have "\<dots> = [quote, quote, quote] @ newline #
      join_lines (butlast (tl cloud_storage_py) @ [[quote, quote, quote]])"
    by (simp add: join_lines_Cons)
  also have "\<dots> = [quote, quote, quote] @ docstring @ [quote, quote, quote]"
    by (simp add: join_lines_snoc [OF middle_nonempty] docstring_def)
  finally show ?thesis .
qed

lemma take_two_quotes: "(take 2 acc = [quote, quote]) = (2 \<le> trailing_quotes acc)"
proof (cases acc)
  case Nil
  then show ?thesis by (simp add: trailing_quotes_def)
next
  case (Cons a as)
  then show ?thesis by (cases as) (auto simp: trailing_quotes_def)
qed

lemma lex_inside_string:
  "quote_run (trailing_quotes acc) s = Some k \<Longrightarrow>
   lex (InStr3 acc) (s @ rest) = lex (InStr3 (rev s @ acc)) rest \<and>
   trailing_quotes (rev s @ acc) = k"
proof (induction s arbitrary: acc)
  case Nil
  then show ?case by simp
next
  case (Cons c cs)
  show ?case
  proof (cases "c = quote")
    case True
    with Cons.prems have small: "trailing_quotes acc < 2"
      and run: "quote_run (Suc (trailing_quotes acc)) cs = Some k"
      by (auto split: if_splits)
    have tq: "trailing_quotes (c # acc) = Suc (trailing_quotes acc)"
      using True by (simp add: trailing_quotes_def)
    have "step (InStr3 acc) c = ([], InStr3 (c # acc))"
      using small by (simp add: take_two_quotes)
    moreover have "lex (InStr3 (c # acc)) (cs @ rest) = lex (InStr3 (rev cs @ c # acc)) rest \<and>
        trailing_quotes (rev cs @ c # acc) = k"
      using Cons.IH [of "c # acc"] run tq by simp
    ultimately show ?thesis by simp
  next
    case False
    with Cons.prems have run: "quote_run 0 cs = Some k" by simp
    have tq: "trailing_quotes (c # acc) = 0"
      using False by (simp add: trailing_quotes_def)
    have "step (InStr3 acc) c = ([], InStr3 (c # acc))"
      using False by simp
    moreover have "lex (InStr3 (c # acc)) (cs @ rest) = lex (InStr3 (rev cs @ c # acc)) rest \<and>
        trailing_quotes (rev cs @ c # acc) = k"
      using Cons.IH [of "c # acc"] run tq by simp
    ultimately show ?thesis by simp
  qed
qed

lemma quote_run_append:
  "quote_run k (a @ b) = (case quote_run k a of None \<Rightarrow> None | Some j \<Rightarrow> quote_run j b)"
  by (induction a arbitrary: k) simp_all

lemma newline_not_quote: "newline \<noteq> quote"
  by (simp add: newline_def quote_def)

lemma quote_run_lines:
  "list_all line_ok ls \<Longrightarrow> quote_run 0 (concat (map (\<lambda>l. l @ [newline]) ls)) = Some 0"
proof (induction ls)
  case Nil
  then show ?case by simp
next
  case (Cons l ls)
  then obtain j where "quote_run 0 l = Some j"
    by (auto simp: line_ok_def)
  then show ?case
    using Cons by (simp add: quote_run_append newline_not_quote)
qed

lemma join_lines_newline:
  "ls \<noteq> [] \<Longrightarrow> join_lines ls @ [newline] = concat (map (\<lambda>l. l @ [newline]) ls)"
  by (induction ls rule: join_lines.induct) simp_all

lemma docstring_run: "quote_run 0 docstring = Some 0"
proof -
  have eq: "docstring = newline # concat (map (\<lambda>l. l @ [newline]) (butlast (tl cloud_storage_py)))"
    by (simp add: docstring_def join_lines_newline [OF middle_nonempty])
  have "quote_run 0 docstring =
      quote_run 0 (concat (map (\<lambda>l. l @ [newline]) (butlast (tl cloud_storage_py))))"
    by (subst eq) (simp add: newline_not_quote)
  then show ?thesis
    by (simp add: quote_run_lines [OF middle_lines_ok])
qed

lemma lex_open_string: "lex Code (quote # quote # quote # s) = lex (InStr3 []) s"
  by (simp add: start_def is_letter_def is_digit_def quote_def)

lemma lex_close_string:
  "trailing_quotes acc = 0 \<Longrightarrow> lex (InStr3 acc) [quote, quote, quote] = [Str (rev acc)]"
proof -
  assume z: "trailing_quotes acc = 0"
  have a: "take 2 acc \<noteq> [quote, quote]"
    using z by (simp add: take_two_quotes)
  have "trailing_quotes (quote # acc) = 1"
    using z by (simp add: trailing_quotes_def)
  then have b: "take 2 (quote # acc) \<noteq> [quote, quote]"
    by (simp only: take_two_quotes)
  have c: "take 2 (quote # quote # acc) = [quote, quote]"
    by simp
  have "lex (InStr3 acc) [quote, quote, quote] = lex (InStr3 (quote # acc)) [quote, quote]"
    using a by simp
  also have "\<dots> = lex (InStr3 (quote # quote # acc)) [quote]"
    using b by simp
  also have "\<dots> = [Str (rev acc)]"
    using c by simp
  finally show ?thesis .
qed

lemma tokens_module_text: "tokens module_text = [Str docstring]"
proof -
  have run: "quote_run (trailing_quotes []) docstring = Some 0"
    using docstring_run by (simp add: trailing_quotes_def)
  have inside: "lex (InStr3 []) (docstring @ [quote, quote, quote]) =
      lex (InStr3 (rev docstring @ [])) [quote, quote, quote]"
    and tq: "trailing_quotes (rev docstring @ []) = 0"
    using lex_inside_string [OF run, of "[quote, quote, quote]"] by simp_all
  have "tokens module_text = lex (InStr3 []) (docstring @ [quote, quote, quote])"
    by (simp add: tokens_def module_text_shape lex_open_string del: lex.simps)
  also have "\<dots> = [Str docstring]"
    using inside lex_close_string [OF tq] by simp
  finally show ?thesis .
qed

text \<open>
  C8. The whole file is one triple-quoted string literal at module level: the text is
  three quotes, the docstring, three quotes; its only token is that string. The module
  calls nothing, binds and references no name, and executing it leaves every name of
  the namespace as it was except \<^verbatim>\<open>__doc__\<close>, which is bound to the string.
\<close>

theorem module_is_one_string_literal:
  "module_text = [quote, quote, quote] @ docstring @ [quote, quote, quote]
   \<and> tokens module_text = [Str docstring]
   \<and> calls Newline (tokens module_text) = []
   \<and> occurrences 0 Newline (tokens module_text) = []
   \<and> exec_module (tokens module_text) ns = Some (ns(''__doc__'' \<mapsto> docstring))"
  unfolding tokens_module_text
  by (simp add: module_text_shape)

subsection \<open>Size of the snippets\<close>

text \<open>
  C7, as stated, fails: counted with their blank lines, three regions are longer than 15
  lines; the region \<^verbatim>\<open>credential_provider_custom_func_azure\<close> has 21.
\<close>

theorem regions_exceed_fifteen_lines:
  "length (snippet cloud_storage_py ''credential_provider_custom_func_azure'') = 21
   \<and> \<not> list_all (\<lambda>n. 3 \<le> length (snippet cloud_storage_py n)
                        \<and> length (snippet cloud_storage_py n) \<le> 15)
        (snippet_names cloud_storage_py)"
  by code_simp

text \<open>
  C7, amended. Every region has between 3 and 15 lines that are not blank (between 5 and
  21 lines with the blank ones), and the file has 139 lines, fewer than 150.
\<close>

theorem regions_nonblank_line_counts:
  "map (\<lambda>n. length (nonblank_lines (snippet cloud_storage_py n)))
     (snippet_names cloud_storage_py) = [3, 3, 8, 11, 12, 15, 9, 9, 14]
   \<and> list_all (\<lambda>n. 3 \<le> length (nonblank_lines (snippet cloud_storage_py n))
                    \<and> length (nonblank_lines (snippet cloud_storage_py n)) \<le> 15)
        (snippet_names cloud_storage_py)
   \<and> map (\<lambda>n. length (snippet cloud_storage_py n)) (snippet_names cloud_storage_py)
     = [5, 5, 10, 12, 16, 21, 10, 13, 18]
   \<and> length cloud_storage_py = 139
   \<and> length cloud_storage_py < 150"
  by code_simp

subsection \<open>The two tables written\<close>

text \<open>
  C10. The lines 106 to 111 of the file (in the snippet \<^verbatim>\<open>write_parquet\<close>) and the
  lines 124 to 129 (in \<^verbatim>\<open>write_file_object\<close>) are the same six lines, the DataFrame
  literal with the columns foo and bar; the two statements have the same tokens, and
  the two tables are the same value.
\<close>

theorem write_snippets_same_dataframe:
  \<open>take 6 (drop 105 cloud_storage_py) =
     [''df = pl.DataFrame('',
      ''    {'',
      ''        "foo": ["a", "b", "c", "d", "d"],'',
      ''        "bar": [1, 2, 3, 4, 5],'',
      ''    }'',
      '')'']
   \<and> take 6 (drop 123 cloud_storage_py) = take 6 (drop 105 cloud_storage_py)
   \<and> take 6 (drop 2 (snippet cloud_storage_py ''write_parquet''))
     = take 6 (drop 105 cloud_storage_py)
   \<and> take 6 (drop 4 (snippet cloud_storage_py ''write_file_object''))
     = take 6 (drop 123 cloud_storage_py)
   \<and> take 37 (drop 6 (snippet_tokens ''write_parquet''))
     = take 37 (drop 12 (snippet_tokens ''write_file_object''))
   \<and> take 37 (drop 6 (snippet_tokens ''write_parquet'')) =
     [Name ''df'', Op ''='', Name ''pl'', Op ''.'', Name ''DataFrame'', Op ''('', Op ''{'',
      Str ''foo'', Op '':'', Op ''['', Str ''a'', Op '','', Str ''b'', Op '','', Str ''c'',
      Op '','', Str ''d'', Op '','', Str ''d'', Op '']'', Op '','',
      Str ''bar'', Op '':'', Op ''['', Num ''1'', Op '','', Num ''2'', Op '','', Num ''3'',
      Op '','', Num ''4'', Op '','', Num ''5'', Op '']'', Op '','', Op ''}'', Op '')'']
   \<and> write_parquet_df = write_file_object_df
   \<and> write_parquet_df =
     [(''foo'', [S ''a'', S ''b'', S ''c'', S ''d'', S ''d'']),
      (''bar'', [I 1, I 2, I 3, I 4, I 5])]\<close>
  unfolding snippet_tokens_eqs
  by (intro conjI; (code_simp | simp add: write_parquet_df_def write_file_object_df_def))

subsection \<open>The credential provider callbacks\<close>

text \<open>
  C1. The file defines two functions, \<^verbatim>\<open>get_credentials\<close> and \<^verbatim>\<open>credential_provider\<close>,
  both with an empty parameter list, and each returns a dictionary display followed by a
  comma and a second value. \<^verbatim>\<open>get_credentials\<close> returns the mapping with the access key,
  secret key and session token fields and no expiry; \<^verbatim>\<open>credential_provider\<close> returns the
  mapping with the bearer token field and the expiry of the token the SDK gave.
\<close>

theorem callbacks_return_mapping_and_expiry:
  "concat (map (\<lambda>n. def_headers (snippet_tokens n)) (snippet_names cloud_storage_py)) =
     [(''get_credentials'', []), (''credential_provider'', [])]
   \<and> def_headers (snippet_tokens ''credential_provider_custom_func'') =
     [(''get_credentials'', [])]
   \<and> def_headers (snippet_tokens ''credential_provider_custom_func_azure'') =
     [(''credential_provider'', [])]
   \<and> map returns_pair (return_statements (snippet_tokens ''credential_provider_custom_func''))
     = [True]
   \<and> map returns_pair
       (return_statements (snippet_tokens ''credential_provider_custom_func_azure'')) = [True]
   \<and> get_credentials () =
     ([(''aws_access_key_id'', ''...''), (''aws_secret_access_key'', ''...''),
       (''aws_session_token'', ''...'')], None)
   \<and> credential_provider sdk () =
     ([(''bearer_token'', token (sdk True ''https://storage.azure.com/.default''))],
      Some (expires_on (sdk True ''https://storage.azure.com/.default'')))"
  unfolding snippet_names_eq list.map snippet_tokens_eqs
  by (intro conjI; (code_simp | simp add: get_credentials_def credential_provider_def))

subsection \<open>Refresh of credentials\<close>

lemma invocations_requests_lower: "invocations s \<le> invocations (requests p ts s)"
proof (induction ts arbitrary: s)
  case Nil
  then show ?case by simp
next
  case (Cons t ts)
  have "invocations s \<le> invocations (credentials_at p t s)"
    by (simp add: credentials_at_def invoke_def split: option.splits)
  also have "\<dots> \<le> invocations (requests p ts (credentials_at p t s))"
    by (rule Cons.IH)
  finally show ?case by simp
qed

lemma invocations_requests_upper: "invocations (requests p ts s) \<le> invocations s + length ts"
proof (induction ts arbitrary: s)
  case Nil
  then show ?case by simp
next
  case (Cons t ts)
  have "invocations (requests p ts (credentials_at p t s))
      \<le> invocations (credentials_at p t s) + length ts"
    by (rule Cons.IH)
  also have "invocations (credentials_at p t s) \<le> Suc (invocations s)"
    by (simp add: credentials_at_def invoke_def split: option.splits)
  finally show ?case by simp
qed

lemma requests_no_expiry:
  "current s = Some (c, None) \<Longrightarrow> requests p ts s = s"
  by (induction ts) (simp_all add: credentials_at_def expiry_passed_def)

text \<open>
  C2. In the model of the caller, the first request for credentials invokes the
  provider; a later request invokes the same provider again exactly when the expiry it
  returned has passed, and never when it returned no expiry. Over any run of requests
  the provider is invoked at least once and at most once per request. So
  \<^verbatim>\<open>get_credentials\<close>, which returns no expiry, is invoked once, and
  \<^verbatim>\<open>credential_provider\<close> is invoked again at a request after the token's expiry.
\<close>

theorem provider_invoked_initially_and_on_refresh:
  "credentials_at p now initial = \<lparr>invocations = 1, current = Some (p 0)\<rparr>
   \<and> credentials_at p now \<lparr>invocations = k, current = Some (c, Some e)\<rparr> =
     (if e < now then \<lparr>invocations = Suc k, current = Some (p k)\<rparr>
      else \<lparr>invocations = k, current = Some (c, Some e)\<rparr>)
   \<and> credentials_at p now \<lparr>invocations = k, current = Some (c, None)\<rparr> =
     \<lparr>invocations = k, current = Some (c, None)\<rparr>
   \<and> 1 \<le> invocations (requests p (t # ts) initial)
   \<and> invocations (requests p (t # ts) initial) \<le> length (t # ts)
   \<and> requests (\<lambda>i. get_credentials ()) (t # ts) initial =
     \<lparr>invocations = 1, current = Some (get_credentials ())\<rparr>
   \<and> invocations (requests (\<lambda>i. credential_provider sdk ()) [t, t'] initial) =
     (if expires_on (sdk True ''https://storage.azure.com/.default'') < t' then 2 else 1)"
proof -
  let ?P = "\<lambda>i::nat. credential_provider sdk ()"
  have first: "credentials_at p now initial = \<lparr>invocations = 1, current = Some (p 0)\<rparr>"
    for p now
    by (simp add: credentials_at_def initial_def invoke_def)
  have refresh: "credentials_at p now \<lparr>invocations = k, current = Some (c, Some e)\<rparr> =
      (if e < now then \<lparr>invocations = Suc k, current = Some (p k)\<rparr>
       else \<lparr>invocations = k, current = Some (c, Some e)\<rparr>)"
    by (simp add: credentials_at_def expiry_passed_def invoke_def)
  have keep: "credentials_at p now \<lparr>invocations = k, current = Some (c, None)\<rparr> =
      \<lparr>invocations = k, current = Some (c, None)\<rparr>"
    by (simp add: credentials_at_def expiry_passed_def)
  have lower: "1 \<le> invocations (requests p (t # ts) initial)"
    using invocations_requests_lower [of "credentials_at p t initial" p ts]
    by (simp add: first)
  have upper: "invocations (requests p (t # ts) initial) \<le> length (t # ts)"
    using invocations_requests_upper [of p ts "credentials_at p t initial"]
    by (simp add: first)
  have once: "requests (\<lambda>i. get_credentials ()) (t # ts) initial =
      \<lparr>invocations = 1, current = Some (get_credentials ())\<rparr>"
    by (simp add: first get_credentials_def requests_no_expiry)
  have two: "requests ?P [t, t'] initial =
      credentials_at ?P t' \<lparr>invocations = 1, current = Some (?P 0)\<rparr>"
    by (simp add: first)
  have twice: "invocations (requests ?P [t, t'] initial) =
      (if expires_on (sdk True ''https://storage.azure.com/.default'') < t' then 2 else 1)"
    unfolding two
    by (simp add: credentials_at_def expiry_passed_def invoke_def credential_provider_def Let_def)
  from first [of p now] refresh keep lower upper once twice show ?thesis
    by blast
qed

subsection \<open>How credentials are supplied\<close>

text \<open>
  C3, as stated, fails: the snippet \<^verbatim>\<open>credential_provider_class\<close> supplies credentials
  through an object built from the class \<^verbatim>\<open>pl.CredentialProviderAWS\<close>, which is neither a
  plain mapping nor a function the snippet defines.
\<close>

theorem class_snippet_supplies_provider_object:
  "snippet_supplies ''credential_provider_class'' = [Constructed ''CredentialProviderAWS'']
   \<and> \<not> list_all is_mapping_or_callback (snippet_supplies ''credential_provider_class'')
   \<and> \<not> list_all (\<lambda>n. list_all is_mapping_or_callback (snippet_supplies n))
        (snippet_names cloud_storage_py)"
  unfolding snippet_names_eq list.map list_all_Nil_iff list_all_Cons_iff filter.simps snippet_calls_def
    entry_point_calls_def uses_lazy_scan_def snippet_supplies_def snippet_tokens_eqs
  by code_simp

text \<open>
  C3, amended. Every snippet that supplies credentials does so through a plain mapping
  (storage options), through a function it defines that returns a mapping and an expiry,
  or through an object built from a credential provider class of the library
  (\<^verbatim>\<open>pl.CredentialProviderAWS\<close>, \<^verbatim>\<open>pl.CredentialProviderAzure\<close>); no other form appears.
\<close>

theorem credential_supply_forms:
  "map snippet_supplies (snippet_names cloud_storage_py) =
     [[], [], [PlainMapping], [Constructed ''CredentialProviderAWS''],
      [Callback ''get_credentials''],
      [Callback ''credential_provider'', Constructed ''CredentialProviderAzure''],
      [], [], []]
   \<and> list_all (\<lambda>n. list_all (\<lambda>s. s \<noteq> Unknown) (snippet_supplies n))
        (snippet_names cloud_storage_py)
   \<and> list_all returns_pair
        (return_statements (snippet_tokens ''credential_provider_custom_func''))
   \<and> list_all returns_pair
        (return_statements (snippet_tokens ''credential_provider_custom_func_azure''))"
  unfolding snippet_names_eq list.map list_all_Nil_iff list_all_Cons_iff filter.simps snippet_calls_def
    entry_point_calls_def uses_lazy_scan_def snippet_supplies_def snippet_tokens_eqs
  by code_simp

subsection \<open>Calls of a snippet\<close>

text \<open>
  C4, as stated, fails: the snippet \<^verbatim>\<open>credential_provider_custom_func_azure\<close> calls the
  entry point \<^verbatim>\<open>pl.scan_parquet\<close> twice.
\<close>

theorem azure_snippet_scans_twice:
  "entry_point_calls ''credential_provider_custom_func_azure'' =
     [''scan_parquet'', ''scan_parquet'']
   \<and> \<not> list_all (\<lambda>n. length (entry_point_calls n) \<le> 1) (snippet_names cloud_storage_py)"
  unfolding snippet_names_eq list.map list_all_Nil_iff list_all_Cons_iff filter.simps snippet_calls_def
    entry_point_calls_def uses_lazy_scan_def snippet_supplies_def snippet_tokens_eqs
  by code_simp

text \<open>
  C4, amended. Every snippet calls exactly one input or output entry point of the library
  (\<^verbatim>\<open>read_parquet\<close>, \<^verbatim>\<open>scan_parquet\<close>, \<^verbatim>\<open>scan_pyarrow_dataset\<close>, \<^verbatim>\<open>write_parquet\<close>,
  \<^verbatim>\<open>write_csv\<close>), except \<^verbatim>\<open>credential_provider_custom_func_azure\<close>, which calls
  \<^verbatim>\<open>scan_parquet\<close> twice. The other calls are the chained \<^verbatim>\<open>filter\<close>, \<^verbatim>\<open>select\<close> and
  \<^verbatim>\<open>collect\<close> (with \<^verbatim>\<open>pl.col\<close> inside \<^verbatim>\<open>filter\<close>), the constructors \<^verbatim>\<open>DataFrame\<close>,
  \<^verbatim>\<open>CredentialProviderAWS\<close> and \<^verbatim>\<open>CredentialProviderAzure\<close>, and calls of other libraries
  (\<^verbatim>\<open>DefaultAzureCredential\<close>, \<^verbatim>\<open>get_token\<close>, \<^verbatim>\<open>dataset\<close>, \<^verbatim>\<open>S3FileSystem\<close>, \<^verbatim>\<open>open\<close>).
\<close>

theorem snippet_call_table:
  "map snippet_calls (snippet_names cloud_storage_py) =
     [[''read_parquet''],
      [''scan_parquet'', ''filter'', ''col'', ''select'', ''collect''],
      [''scan_parquet'', ''collect''],
      [''scan_parquet'', ''CredentialProviderAWS'', ''collect''],
      [''scan_parquet'', ''collect''],
      [''DefaultAzureCredential'', ''get_token'', ''scan_parquet'', ''scan_parquet'',
       ''CredentialProviderAzure'', ''DefaultAzureCredential''],
      [''dataset'', ''scan_pyarrow_dataset'', ''filter'', ''col'', ''select'', ''collect''],
      [''DataFrame'', ''write_parquet''],
      [''DataFrame'', ''S3FileSystem'', ''open'', ''open'', ''write_csv'']]
   \<and> map (\<lambda>n. length (entry_point_calls n)) (snippet_names cloud_storage_py) =
     [1, 1, 1, 1, 1, 2, 1, 1, 1]"
  unfolding snippet_names_eq list.map list_all_Nil_iff list_all_Cons_iff filter.simps snippet_calls_def
    entry_point_calls_def uses_lazy_scan_def snippet_supplies_def snippet_tokens_eqs
  by code_simp

subsection \<open>Lazy scans and their materialization\<close>






subsection \<open>Names a snippet relies on\<close>

text \<open>
  C6, as stated, fails: the snippet \<^verbatim>\<open>credential_provider_class\<close> references \<^verbatim>\<open>pl\<close> and
  neither imports nor defines it.
\<close>

theorem class_snippet_uses_pl_without_import:
  "free_names (snippet_tokens ''credential_provider_class'') = [''pl'']
   \<and> ''pl'' \<notin> set (bound_names (snippet_tokens ''credential_provider_class''))
   \<and> \<not> list_all (\<lambda>n. free_names (snippet_tokens n) = []) (snippet_names cloud_storage_py)"
  unfolding snippet_names_eq list.map list_all_Nil_iff list_all_Cons_iff filter.simps snippet_calls_def
    entry_point_calls_def uses_lazy_scan_def snippet_supplies_def snippet_tokens_eqs
  by code_simp

text \<open>
  C6, amended. The snippets are nine separate regions, one after the other, with distinct
  names. Each references only names it imports or defines itself, except \<^verbatim>\<open>pl\<close> in the
  three credential provider snippets and \<^verbatim>\<open>DefaultAzureCredential\<close> in the Azure one;
  \<^verbatim>\<open>DefaultAzureCredential\<close> is bound by no snippet of the file. The only keywords in the
  snippets are those of the binding forms covered, \<^verbatim>\<open>return\<close> and three constants.
\<close>

theorem snippet_free_names:
  "map (\<lambda>n. free_names (snippet_tokens n)) (snippet_names cloud_storage_py) =
     [[], [], [], [''pl''], [''pl''], [''pl'', ''DefaultAzureCredential''], [], [], []]
   \<and> markers cloud_storage_py =
     concat (map (\<lambda>n. [(True, n), (False, n)]) (snippet_names cloud_storage_py))
   \<and> distinct (snippet_names cloud_storage_py)
   \<and> list_all (\<lambda>n. ''DefaultAzureCredential'' \<notin> set (bound_names (snippet_tokens n)))
        (snippet_names cloud_storage_py)
   \<and> remdups (concat (map (\<lambda>n. used_keywords (snippet_tokens n))
        (snippet_names cloud_storage_py))) =
     [''None'', ''def'', ''return'', ''True'', ''import'', ''with'', ''as'']"
proof -
  have regions: "markers cloud_storage_py =
      concat (map (\<lambda>n. [(True, n), (False, n)]) (snippet_names cloud_storage_py))
    \<and> distinct (snippet_names cloud_storage_py)"
    by code_simp
  have names: "map (\<lambda>n. free_names (snippet_tokens n)) (snippet_names cloud_storage_py) =
      [[], [], [], [''pl''], [''pl''], [''pl'', ''DefaultAzureCredential''], [], [], []]
    \<and> list_all (\<lambda>n. ''DefaultAzureCredential'' \<notin> set (bound_names (snippet_tokens n)))
        (snippet_names cloud_storage_py)
    \<and> remdups (concat (map (\<lambda>n. used_keywords (snippet_tokens n))
        (snippet_names cloud_storage_py))) =
      [''None'', ''def'', ''return'', ''True'', ''import'', ''with'', ''as'']"
    unfolding snippet_names_eq list.map list_all_Nil_iff list_all_Cons_iff filter.simps snippet_calls_def
    entry_point_calls_def uses_lazy_scan_def snippet_supplies_def snippet_tokens_eqs
    by code_simp
  from regions names show ?thesis by blast
qed

subsection \<open>The missing comma\<close>

text \<open>
  C9. In the snippet \<^verbatim>\<open>credential_provider_class\<close>, line 36 of the file ends the keyword
  argument \<^verbatim>\<open>profile_name\<close> without a comma and line 37 starts the keyword argument
  \<^verbatim>\<open>assume_role\<close>: inside the call of \<^verbatim>\<open>pl.CredentialProviderAWS\<close> a string literal is
  directly followed by a name, which no Python parser accepts. The check reports this
  pair for the snippet and nothing for the other eight.
\<close>

theorem credential_provider_class_missing_comma:
  \<open>check_separators (snippet_tokens ''credential_provider_class'') =
     Inl (MissingSeparator (Str ''...'') (Name ''assume_role''))
   \<and> take 10 (drop 10 (snippet_tokens ''credential_provider_class'')) =
     [Name ''pl'', Op ''.'', Name ''CredentialProviderAWS'', Op ''('',
      Name ''profile_name'', Op ''='', Str ''...'',
      Name ''assume_role'', Op ''='', Op ''{'']
   \<and> cloud_storage_py ! 35 = ''        profile_name="..."''
   \<and> cloud_storage_py ! 36 = ''        assume_role={''
   \<and> take 2 (drop 3 (snippet cloud_storage_py ''credential_provider_class'')) =
     [cloud_storage_py ! 35, cloud_storage_py ! 36]
   \<and> map (\<lambda>n. check_separators (snippet_tokens n)) (snippet_names cloud_storage_py) =
     [Inr (), Inr (), Inr (),
      Inl (MissingSeparator (Str ''...'') (Name ''assume_role'')),
      Inr (), Inr (), Inr (), Inr (), Inr ()]\<close>
  unfolding snippet_names_eq list.map snippet_tokens_eqs
  by (intro conjI; code_simp)

end
